theory Spec2Isabelle
  imports Main "HOL-Library.Word" "HOL-Library.Sublist" "HOL-Library.AList"
begin

section \<open>JavaScript strings\<close>

text \<open>
  A JavaScript string is a sequence of UTF-16 code units; \<open>includes\<close>, \<open>split\<close>,
  \<open>substring\<close> and \<open>trim\<close> all work on code units. ASCII text is written with
  \<open>of_ascii\<close>; a character outside ASCII is written as its code unit.
\<close>

type_synonym jsstring = "16 word list"

definition of_ascii :: "string \<Rightarrow> jsstring" where
  "of_ascii s = map of_char s"

text \<open>
  \<open>String.prototype.toLowerCase\<close> applies the Unicode case mapping, a table that is
  not part of the repository. Every function that lowercases takes the mapping as its
  first argument, so each theorem holds for whatever the table is.
  \<open>ascii_toLowerCase\<close> is the mapping restricted to ASCII; it serves to evaluate the
  functions on concrete ASCII inputs.
\<close>

type_synonym case_mapping = "jsstring \<Rightarrow> jsstring"

definition ascii_toLowerCase :: case_mapping where
  "ascii_toLowerCase s = map (\<lambda>u. if 65 \<le> u \<and> u \<le> 90 then u + 32 else u) s"

text \<open>
  \<open>String.prototype.trim\<close> removes leading and trailing WhiteSpace and LineTerminator
  code points: TAB, LF, VT, FF, CR, SPACE, NBSP, U+1680, U+2000..U+200A, U+2028, U+2029,
  U+202F, U+205F, U+3000 and U+FEFF.
\<close>

definition isWhiteSpace :: "16 word \<Rightarrow> bool" where
  "isWhiteSpace u \<longleftrightarrow>
     u \<in> set [0x9, 0xA, 0xB, 0xC, 0xD, 0x20, 0xA0, 0x1680, 0x2028, 0x2029, 0x202F,
              0x205F, 0x3000, 0xFEFF]
     \<or> (0x2000 \<le> u \<and> u \<le> 0x200A)"

definition trim :: "jsstring \<Rightarrow> jsstring" where
  "trim s = rev (dropWhile isWhiteSpace (rev (dropWhile isWhiteSpace s)))"

text \<open>\<open>hay.includes(needle)\<close>: the needle starts at some position of the hay.\<close>

fun includes_str :: "jsstring \<Rightarrow> jsstring \<Rightarrow> bool" where
  "includes_str [] needle = (needle = [])"
| "includes_str (c # cs) needle = (prefix needle (c # cs) \<or> includes_str cs needle)"

text \<open>
  \<open>s.split(' ')\<close>: the pieces of \<open>s\<close> between single SPACE code units; an empty
  string gives one empty piece, two adjacent spaces give an empty piece between them.
\<close>

fun split_str :: "16 word \<Rightarrow> jsstring \<Rightarrow> jsstring list" where
  "split_str sep [] = [[]]"
| "split_str sep (c # cs) =
     (if c = sep then [] # split_str sep cs
      else (case split_str sep cs of
              [] \<Rightarrow> [[c]]
            | p # ps \<Rightarrow> (c # p) # ps))"

definition SPACE :: "16 word" where
  "SPACE = 0x20"

text \<open>\<open>s.substring(0, n)\<close>: the first \<open>n\<close> code units, or all of \<open>s\<close> when it is shorter.\<close>

definition substring0 :: "jsstring \<Rightarrow> nat \<Rightarrow> jsstring" where
  "substring0 s n = take n s"

section \<open>Rows, goal records and the goals object\<close>

text \<open>
  A row as \<open>csv-parser\<close> emits it: an object with one string per header column; a column
  the row lacks reads as \<open>undefined\<close> (\<open>None\<close>). \<open>Levels\<close> is the column \<open>Level(s)\<close>
  and \<open>Video_Link\<close> the column \<open>Video Link\<close>.
\<close>

record row =
  Name :: "jsstring option"
  Description :: "jsstring option"
  Levels :: "jsstring option"
  Difficulty :: "jsstring option"
  Video_Link :: "jsstring option"

record goal =
  name :: jsstring
  description :: jsstring
  levels :: jsstring
  difficulty :: jsstring
  videoLink :: jsstring

text \<open>
  The object \<open>goals = {}\<close> used as a dictionary. \<open>own\<close> holds its own properties in
  creation order; \<open>proto\<close> is \<open>None\<close> while the prototype is \<open>Object.prototype\<close> and
  \<open>Some r\<close> once an assignment to \<open>__proto__\<close> has replaced it by the object \<open>r\<close>.
\<close>

record 'v js_object =
  own :: "(jsstring \<times> 'v) list"
  proto :: "'v option"

definition empty_object :: "'v js_object" where
  "empty_object = \<lparr>own = [], proto = None\<rparr>"

definition PROTO :: jsstring where
  "PROTO = of_ascii ''__proto__''"

text \<open>
  \<open>obj[k] = v\<close> where \<open>v\<close> is an object: the key \<open>__proto__\<close> reaches the setter
  inherited from \<open>Object.prototype\<close>, which replaces the prototype and creates no own
  property; any other key overwrites the own property in place or appends a new one.
\<close>

definition set_object :: "'v js_object \<Rightarrow> jsstring \<Rightarrow> 'v \<Rightarrow> 'v js_object" where
  "set_object obj k v =
     (if k = PROTO then obj\<lparr>proto := Some v\<rparr>
      else obj\<lparr>own := AList.update k v (own obj)\<rparr>)"

text \<open>
  \<open>obj[k] = v\<close> where \<open>v\<close> is a string: the \<open>__proto__\<close> setter ignores a value that
  is neither an object nor \<open>null\<close>, so that assignment changes nothing.
\<close>

definition set_primitive :: "'v js_object \<Rightarrow> jsstring \<Rightarrow> 'v \<Rightarrow> 'v js_object" where
  "set_primitive obj k v =
     (if k = PROTO then obj
      else obj\<lparr>own := AList.update k v (own obj)\<rparr>)"

text \<open>
  Own property keys are enumerated array indices first, in ascending numeric order, then
  the other strings in creation order. An array index is the canonical decimal form of an
  integer below \<open>2^32 - 1\<close>: digits only, with no leading zero unless it is \<open>0\<close> itself.
\<close>

definition isDigit :: "16 word \<Rightarrow> bool" where
  "isDigit u \<longleftrightarrow> 48 \<le> u \<and> u \<le> 57"

definition digits_value :: "jsstring \<Rightarrow> nat" where
  "digits_value k = foldl (\<lambda>acc u. 10 * acc + (unat u - 48)) 0 k"

definition array_index :: "jsstring \<Rightarrow> nat option" where
  "array_index k =
     (if k \<noteq> [] \<and> list_all isDigit k \<and> (length k = 1 \<or> 49 \<le> hd k)
         \<and> digits_value k < 4294967295
      then Some (digits_value k) else None)"

definition index_rank :: "jsstring \<Rightarrow> nat" where
  "index_rank k = (case array_index k of Some i \<Rightarrow> i | None \<Rightarrow> 0)"

definition own_property_keys :: "jsstring list \<Rightarrow> jsstring list" where
  "own_property_keys ks =
     sort_key index_rank (filter (\<lambda>k. array_index k \<noteq> None) ks)
     @ filter (\<lambda>k. array_index k = None) ks"

definition Object_keys :: "'v js_object \<Rightarrow> jsstring list" where
  "Object_keys obj = own_property_keys (map fst (own obj))"

definition Object_entries :: "'v js_object \<Rightarrow> (jsstring \<times> 'v) list" where
  "Object_entries obj =
     sort_key (\<lambda>p. index_rank (fst p)) (filter (\<lambda>p. array_index (fst p) \<noteq> None) (own obj))
     @ filter (\<lambda>p. array_index (fst p) = None) (own obj)"

definition Object_values :: "'v js_object \<Rightarrow> 'v list" where
  "Object_values obj = map snd (Object_entries obj)"

section \<open>Reading a property of the goals object\<close>

datatype jsvalue =
    Undefined
  | Str jsstring
  | GoalV goal
  | ObjectPrototype
  | Function jsstring

text \<open>
  The properties every object inherits from \<open>Object.prototype\<close>. The accessor
  \<open>__proto__\<close> returns the prototype of the object that is read; \<open>constructor\<close> is the
  function \<open>Object\<close>; the others are functions named after their key.
\<close>

definition Object_prototype_functions :: "jsstring list" where
  "Object_prototype_functions =
     map of_ascii [''__defineGetter__'', ''__defineSetter__'', ''hasOwnProperty'',
       ''__lookupGetter__'', ''__lookupSetter__'', ''isPrototypeOf'',
       ''propertyIsEnumerable'', ''toString'', ''valueOf'', ''toLocaleString'']"

definition Object_prototype_get :: "goal js_object \<Rightarrow> jsstring \<Rightarrow> jsvalue" where
  "Object_prototype_get obj k =
     (if k = PROTO then (case proto obj of Some r \<Rightarrow> GoalV r | None \<Rightarrow> ObjectPrototype)
      else if k = of_ascii ''constructor'' then Function (of_ascii ''Object'')
      else if k \<in> set Object_prototype_functions then Function k
      else Undefined)"

definition goal_get :: "goal \<Rightarrow> jsstring \<Rightarrow> jsvalue option" where
  "goal_get g k =
     (if k = of_ascii ''name'' then Some (Str (name g))
      else if k = of_ascii ''description'' then Some (Str (description g))
      else if k = of_ascii ''levels'' then Some (Str (levels g))
      else if k = of_ascii ''difficulty'' then Some (Str (difficulty g))
      else if k = of_ascii ''videoLink'' then Some (Str (videoLink g))
      else None)"

text \<open>
  What \<open>goals[k]\<close> finds on the prototype chain: the fields of the record that replaced
  the prototype, if one did, then \<open>Object.prototype\<close>.
\<close>

definition inherited :: "goal js_object \<Rightarrow> jsstring \<Rightarrow> jsvalue" where
  "inherited obj k =
     (case proto obj of
        None \<Rightarrow> Object_prototype_get obj k
      | Some r \<Rightarrow>
          (case goal_get r k of
             Some v \<Rightarrow> v
           | None \<Rightarrow> Object_prototype_get obj k))"

text \<open>\<open>goals[k]\<close>: an own property, else the prototype chain.\<close>

definition get_property :: "goal js_object \<Rightarrow> jsstring \<Rightarrow> jsvalue" where
  "get_property obj k =
     (case map_of (own obj) k of
        Some g \<Rightarrow> GoalV g
      | None \<Rightarrow> inherited obj k)"

fun truthy :: "jsvalue \<Rightarrow> bool" where
  "truthy Undefined = False"
| "truthy (Str s) = (s \<noteq> [])"
| "truthy (GoalV g) = True"
| "truthy ObjectPrototype = True"
| "truthy (Function f) = True"

section \<open>The loader\<close>

datatype error = FetchError | ParseError | TypeError

text \<open>
  What the remote sheet gives: the fetch fails, the stream reports a parse error, or the
  parser emits the rows in order.
\<close>

datatype upstream = Unreachable | Unparseable | Csv "row list"

text \<open>\<open>row.X ? row.X.trim() : ""\<close>\<close>

definition trim_or_empty :: "jsstring option \<Rightarrow> jsstring" where
  "trim_or_empty x = (case x of None \<Rightarrow> [] | Some s \<Rightarrow> if s \<noteq> [] then trim s else [])"

text \<open>\<open>row.Name && row.Description\<close>: both defined and non-empty.\<close>

definition admitted :: "row \<Rightarrow> bool" where
  "admitted r \<longleftrightarrow>
     (case Name r of None \<Rightarrow> False | Some n \<Rightarrow> n \<noteq> [])
     \<and> (case Description r of None \<Rightarrow> False | Some d \<Rightarrow> d \<noteq> [])"

definition goalName :: "case_mapping \<Rightarrow> row \<Rightarrow> jsstring" where
  "goalName toLowerCase r = toLowerCase (trim (case Name r of None \<Rightarrow> [] | Some n \<Rightarrow> n))"

definition goal_of_row :: "row \<Rightarrow> goal" where
  "goal_of_row r =
     \<lparr>name = trim (case Name r of None \<Rightarrow> [] | Some n \<Rightarrow> n),
      description = trim (case Description r of None \<Rightarrow> [] | Some d \<Rightarrow> d),
      levels = trim_or_empty (Levels r),
      difficulty = trim_or_empty (Difficulty r),
      videoLink = trim_or_empty (Video_Link r)\<rparr>"

text \<open>The \<open>data\<close> callback of \<open>src/unnamed/part_000\<close>.\<close>

definition on_data :: "case_mapping \<Rightarrow> goal js_object \<Rightarrow> row \<Rightarrow> goal js_object" where
  "on_data toLowerCase goals r =
     (if admitted r then set_object goals (goalName toLowerCase r) (goal_of_row r)
      else goals)"

fun on_rows :: "case_mapping \<Rightarrow> goal js_object \<Rightarrow> row list \<Rightarrow> goal js_object" where
  "on_rows toLowerCase goals [] = goals"
| "on_rows toLowerCase goals (r # rs) = on_rows toLowerCase (on_data toLowerCase goals r) rs"

definition loadGoals :: "case_mapping \<Rightarrow> upstream \<Rightarrow> error + goal js_object" where
  "loadGoals toLowerCase up =
     (case up of
        Unreachable \<Rightarrow> Inl FetchError
      | Unparseable \<Rightarrow> Inl ParseError
      | Csv rows \<Rightarrow> Inr (on_rows toLowerCase empty_object rows))"

text \<open>The \<open>data\<close> callback and the loader of \<open>src/index.js\<close>: the value stored is a string.\<close>

definition on_data_index ::
  "case_mapping \<Rightarrow> jsstring js_object \<Rightarrow> row \<Rightarrow> jsstring js_object" where
  "on_data_index toLowerCase goals r =
     (if admitted r
      then set_primitive goals (goalName toLowerCase r)
             (trim (case Description r of None \<Rightarrow> [] | Some d \<Rightarrow> d))
      else goals)"

fun on_rows_index ::
  "case_mapping \<Rightarrow> jsstring js_object \<Rightarrow> row list \<Rightarrow> jsstring js_object" where
  "on_rows_index toLowerCase goals [] = goals"
| "on_rows_index toLowerCase goals (r # rs) =
     on_rows_index toLowerCase (on_data_index toLowerCase goals r) rs"

definition loadGoals_index :: "case_mapping \<Rightarrow> upstream \<Rightarrow> error + jsstring js_object" where
  "loadGoals_index toLowerCase up =
     (case up of
        Unreachable \<Rightarrow> Inl FetchError
      | Unparseable \<Rightarrow> Inl ParseError
      | Csv rows \<Rightarrow> Inr (on_rows_index toLowerCase empty_object rows))"

section \<open>The query resolver\<close>

text \<open>
  The \<open>for ... of Object.entries(goals)\<close> loop of \<open>searchGoals\<close>, with \<open>matches\<close>
  as the accumulator that \<open>push\<close> extends.
\<close>

fun partial_matches ::
  "jsstring \<Rightarrow> (jsstring \<times> goal) list \<Rightarrow> jsvalue list \<Rightarrow> jsvalue list" where
  "partial_matches queryLower [] matches = matches"
| "partial_matches queryLower ((key, goal) # entries) matches =
     partial_matches queryLower entries
       (if includes_str key queryLower
           \<or> list_all (\<lambda>word. includes_str key word) (split_str SPACE queryLower)
        then matches @ [GoalV goal] else matches)"

definition searchGoals :: "case_mapping \<Rightarrow> goal js_object \<Rightarrow> jsstring \<Rightarrow> jsvalue list" where
  "searchGoals toLowerCase goals query =
     (let queryLower = toLowerCase query
      in if truthy (get_property goals queryLower) then [get_property goals queryLower]
         else partial_matches queryLower (Object_entries goals) [])"

section \<open>The formatter\<close>

datatype field = F_name | F_description | F_levels | F_difficulty | F_videoLink

text \<open>
  \<open>v.f\<close> for a value that is not \<open>undefined\<close>; \<open>None\<close> is \<open>undefined\<close>. A goal record
  has the five fields, a function has a \<open>name\<close>, a string and \<open>Object.prototype\<close> have
  none of them.
\<close>

definition read_field :: "jsvalue \<Rightarrow> field \<Rightarrow> jsstring option" where
  "read_field v f =
     (case v of
        GoalV g \<Rightarrow>
          (case f of
             F_name \<Rightarrow> Some (name g)
           | F_description \<Rightarrow> Some (description g)
           | F_levels \<Rightarrow> Some (levels g)
           | F_difficulty \<Rightarrow> Some (difficulty g)
           | F_videoLink \<Rightarrow> Some (videoLink g))
      | Function fn \<Rightarrow> (if f = F_name then Some fn else None)
      | _ \<Rightarrow> None)"

text \<open>\<open>${x}\<close> in a template literal.\<close>

definition interpolate :: "jsstring option \<Rightarrow> jsstring" where
  "interpolate x = (case x of None \<Rightarrow> of_ascii ''undefined'' | Some s \<Rightarrow> s)"

definition nonempty :: "jsstring option \<Rightarrow> bool" where
  "nonempty x = (case x of None \<Rightarrow> False | Some s \<Rightarrow> s \<noteq> [])"

text \<open>
  \<open>formatGoal(goal, includeAll)\<close>. Reading \<open>goal.name\<close> of \<open>undefined\<close> throws a
  TypeError. The code units before \<open>**Level(s):**\<close>, \<open>**Difficulty:**\<close> and \<open>**Video:**\<close>
  are the ones of the source file.
\<close>

definition formatGoal :: "jsvalue \<Rightarrow> bool \<Rightarrow> error + jsstring" where
  "formatGoal goal includeAll =
     (if goal = Undefined then Inl TypeError
      else
        let response = of_ascii ''**'' @ interpolate (read_field goal F_name)
              @ of_ascii ''**: '' @ interpolate (read_field goal F_description);
            response = (if includeAll \<and> nonempty (read_field goal F_levels)
              then response @ [0xA, 0xF0, 0x178, 0x201C] @ of_ascii '' **Level(s):** ''
                     @ interpolate (read_field goal F_levels)
              else response);
            response = (if includeAll \<and> nonempty (read_field goal F_difficulty)
              then response @ [0xA, 0xE2, 0xAD] @ of_ascii '' **Difficulty:** ''
                     @ interpolate (read_field goal F_difficulty)
              else response);
            response = (if includeAll \<and> nonempty (read_field goal F_videoLink)
              then response @ [0xA, 0xF0, 0x178, 0x17D, 0xA5] @ of_ascii '' **Video:** ''
                     @ interpolate (read_field goal F_videoLink)
              else response)
        in Inr response)"

section \<open>The request handlers\<close>

text \<open>
  \<open>req.query.name\<close>: absent, a string, or an array or object (a repeated or bracketed
  parameter), which has no \<open>trim\<close> method.
\<close>

datatype query_param = Absent | Text jsstring | Structured

record overview =
  o_name :: jsstring
  o_description :: jsstring
  o_levels :: jsstring
  o_difficulty :: jsstring
  hasVideo :: bool

datatype body =
    Send jsstring
  | Json_goals nat "overview list"
  | Json_difficulty jsstring nat "jsstring list"

text \<open>
  A handler either writes a response (status and body) or throws outside its \<open>try\<close>
  block. Beside the outcome it returns what it did, in order: calls of the loader, calls
  of \<open>searchGoals\<close>, and errors written to the console.
\<close>

datatype outcome = Responded nat body | Uncaught error

datatype event = LoadGoals_called | SearchGoals_called | Console_error error

text \<open>\<open>xs.join(sep)\<close>\<close>

fun join :: "jsstring \<Rightarrow> jsstring list \<Rightarrow> jsstring" where
  "join sep [] = []"
| "join sep [x] = x"
| "join sep (x # y # zs) = x @ sep @ join sep (y # zs)"

text \<open>\<open>g.name\<close> as \<open>join\<close> renders it: \<open>undefined\<close> gives the empty string.\<close>

definition name_of :: "jsvalue \<Rightarrow> jsstring" where
  "name_of g = (case read_field g F_name of None \<Rightarrow> [] | Some s \<Rightarrow> s)"

definition QUOTE :: "16 word" where
  "QUOTE = 0x22"

text \<open>\<open>app.get("/goal")\<close>\<close>

definition goal_handler ::
  "case_mapping \<Rightarrow> upstream \<Rightarrow> query_param \<Rightarrow> event list \<times> outcome" where
  "goal_handler toLowerCase up param =
     (case param of
        Structured \<Rightarrow> ([], Uncaught TypeError)
      | _ \<Rightarrow>
        let raw = (case param of Text s \<Rightarrow> s | _ \<Rightarrow> []);
            query = trim raw
        in
        if query = [] then
          ([], Responded 400 (Send (of_ascii ''Please provide a goal name (?name=...)'')))
        else
          (case loadGoals toLowerCase up of
             Inl e \<Rightarrow>
               ([LoadGoals_called, Console_error e],
                Responded 500 (Send (of_ascii ''Error fetching goals from Google Sheets.'')))
           | Inr goals \<Rightarrow>
               let matches = searchGoals toLowerCase goals query
               in
               if length matches = 0 then
                 ([LoadGoals_called, SearchGoals_called],
                  Responded 404 (Send (of_ascii ''Goal '' @ [QUOTE] @ raw @ [QUOTE]
                    @ of_ascii '' not found. Check spelling or try another goal.'')))
               else if length matches = 1 then
                 (case formatGoal (hd matches) True of
                    Inl e \<Rightarrow>
                      ([LoadGoals_called, SearchGoals_called, Console_error e],
                       Responded 500
                         (Send (of_ascii ''Error fetching goals from Google Sheets.'')))
                  | Inr formatted \<Rightarrow>
                      ([LoadGoals_called, SearchGoals_called], Responded 200 (Send formatted)))
               else
                 ([LoadGoals_called, SearchGoals_called],
                  Responded 200 (Send (of_ascii ''Multiple goals found: ''
                    @ join (of_ascii '', '') (map name_of (take 5 matches))
                    @ of_ascii ''. Please be more specific!'')))))"

text \<open>The object each record becomes in the \<open>/goals\<close> listing.\<close>

definition overview_of :: "goal \<Rightarrow> overview" where
  "overview_of goal =
     \<lparr>o_name = name goal,
      o_description = substring0 (description goal) 100 @ of_ascii ''...'',
      o_levels = levels goal,
      o_difficulty = difficulty goal,
      hasVideo = (videoLink goal \<noteq> [])\<rparr>"

text \<open>\<open>app.get("/goals")\<close>\<close>

definition goals_handler :: "case_mapping \<Rightarrow> upstream \<Rightarrow> event list \<times> outcome" where
  "goals_handler toLowerCase up =
     (case loadGoals toLowerCase up of
        Inl e \<Rightarrow>
          ([LoadGoals_called, Console_error e],
           Responded 500 (Send (of_ascii ''Error fetching goals from Google Sheets.'')))
      | Inr goals \<Rightarrow>
          let goalList = map overview_of (Object_values goals)
          in ([LoadGoals_called], Responded 200 (Json_goals (length goalList) goalList)))"

text \<open>The \<open>filter\<close> call of \<open>app.get("/goals/difficulty/:level")\<close>.\<close>

fun filteredGoals :: "goal list \<Rightarrow> jsstring \<Rightarrow> goal list" where
  "filteredGoals [] difficultyLevel = []"
| "filteredGoals (goal # rest) difficultyLevel =
     (if includes_str (difficulty goal) difficultyLevel
      then goal # filteredGoals rest difficultyLevel
      else filteredGoals rest difficultyLevel)"

text \<open>\<open>app.get("/goals/difficulty/:level")\<close>\<close>

definition difficulty_handler ::
  "case_mapping \<Rightarrow> upstream \<Rightarrow> jsstring \<Rightarrow> event list \<times> outcome" where
  "difficulty_handler toLowerCase up difficultyLevel =
     (case loadGoals toLowerCase up of
        Inl e \<Rightarrow>
          ([LoadGoals_called, Console_error e],
           Responded 500 (Send (of_ascii ''Error fetching goals.'')))
      | Inr goals \<Rightarrow>
          let filtered = filteredGoals (Object_values goals) difficultyLevel
          in
          if length filtered = 0 then
            ([LoadGoals_called],
             Responded 404 (Send (of_ascii ''No goals found with difficulty '' @ [QUOTE]
               @ difficultyLevel @ [QUOTE])))
          else
            let goalNames = map name filtered
            in ([LoadGoals_called],
                Responded 200 (Json_difficulty difficultyLevel (length goalNames) goalNames)))"

text \<open>\<open>goalArray[i]\<close>: an index outside the array reads as \<open>undefined\<close>.\<close>

definition array_get :: "goal list \<Rightarrow> nat \<Rightarrow> jsvalue" where
  "array_get xs i = (if i < length xs then GoalV (xs ! i) else Undefined)"

text \<open>
  \<open>app.get("/goal/random")\<close>. \<open>floor_random n\<close> stands for the integer that
  \<open>Math.floor(Math.random() * n)\<close> gives at this request.
\<close>

definition random_handler ::
  "case_mapping \<Rightarrow> (nat \<Rightarrow> nat) \<Rightarrow> upstream \<Rightarrow> event list \<times> outcome" where
  "random_handler toLowerCase floor_random up =
     (case loadGoals toLowerCase up of
        Inl e \<Rightarrow>
          ([LoadGoals_called, Console_error e],
           Responded 500 (Send (of_ascii ''Error fetching goals.'')))
      | Inr goals \<Rightarrow>
          let goalArray = Object_values goals;
              randomGoal = array_get goalArray (floor_random (length goalArray))
          in
          (case formatGoal randomGoal True of
             Inl e \<Rightarrow>
               ([LoadGoals_called, Console_error e],
                Responded 500 (Send (of_ascii ''Error fetching goals.'')))
           | Inr formatted \<Rightarrow> ([LoadGoals_called], Responded 200 (Send formatted))))"

section \<open>The fuzzy rule in the words of the specification\<close>

text \<open>
  The specification describes the fuzzy step by whitespace-separated tokens and by
  insertion order. These two definitions follow its words, to be compared with
  \<open>searchGoals\<close>: the tokens of a string are its maximal runs of code units that are not
  white space.
\<close>

fun whitespace_tokens :: "jsstring \<Rightarrow> jsstring list" where
  "whitespace_tokens [] = []"
| "whitespace_tokens (c # cs) =
     (if isWhiteSpace c then whitespace_tokens cs
      else (case cs of
              [] \<Rightarrow> [[c]]
            | d # ds \<Rightarrow>
                if isWhiteSpace d then [c] # whitespace_tokens cs
                else (case whitespace_tokens cs of
                        [] \<Rightarrow> [[c]]
                      | t # ts \<Rightarrow> (c # t) # ts)))"

definition spec_fuzzy_matches ::
  "case_mapping \<Rightarrow> goal js_object \<Rightarrow> jsstring \<Rightarrow> jsvalue list" where
  "spec_fuzzy_matches toLowerCase goals query =
     map (\<lambda>p. GoalV (snd p))
       (filter (\<lambda>p. sublist (toLowerCase query) (fst p)
                  \<or> list_all (\<lambda>token. sublist token (fst p))
                       (whitespace_tokens (toLowerCase query)))
          (own goals))"

section \<open>Sample sheets\<close>

text \<open>
  A row of ASCII text with the columns \<open>Name\<close>, \<open>Description\<close>, \<open>Difficulty\<close> and
  \<open>Video Link\<close> filled in and \<open>Level(s)\<close> empty. \<open>STAR\<close> is the code unit of the
  difficulty mark U+2605.
\<close>

definition sheet_row :: "string \<Rightarrow> string \<Rightarrow> jsstring \<Rightarrow> string \<Rightarrow> row" where
  "sheet_row n d stars v =
     \<lparr>Name = Some (of_ascii n), Description = Some (of_ascii d), Levels = Some [],
      Difficulty = Some stars, Video_Link = Some (of_ascii v)\<rparr>"

definition STAR :: "16 word" where
  "STAR = 0x2605"

definition TAB :: "16 word" where
  "TAB = 0x9"

text \<open>Three goals; the name of the third is a substring of the name of the first.\<close>

definition skip_sheet :: "row list" where
  "skip_sheet =
     [sheet_row ''Jano Skip Glitch'' ''Skip the Jano fight'' [STAR, STAR] ''video'',
      sheet_row ''Flame Skip'' ''Skip the flames'' [STAR] [],
      sheet_row ''Jano'' ''Defeat Jano'' [STAR, STAR, STAR] []]"

definition skip_goals :: "goal js_object" where
  "skip_goals = on_rows ascii_toLowerCase empty_object skip_sheet"

text \<open>
  A sheet whose first and third rows name the same goal, with a row that has no
  description and a row that has no name.
\<close>

definition duplicate_sheet :: "row list" where
  "duplicate_sheet =
     [sheet_row ''Flame Skip'' ''old text'' [STAR] [],
      sheet_row ''Jano'' [] [] [],
      sheet_row '' FLAME SKIP '' ''new text'' [STAR, STAR] [],
      sheet_row [] ''nameless'' [] [],
      sheet_row ''Walk'' ''Walk only'' [] []]"

text \<open>A sheet with a goal named \<open>__proto__\<close>.\<close>

definition proto_sheet :: "row list" where
  "proto_sheet = [sheet_row ''__proto__'' ''Prototype run'' [STAR] []]"

text \<open>A sheet whose goal names include array indices, and one description of 110 code units.\<close>

definition numbered_sheet :: "row list" where
  "numbered_sheet =
     [sheet_row ''b'' ''letter'' [] [],
      sheet_row ''10'' ''ten'' [] [],
      sheet_row ''9''
        (''0123456789012345678901234567890123456789012345678901234567890123456789''
         @ ''0123456789012345678901234567890123456789'') [] ''clip'',
      sheet_row ''07'' ''seven'' [] []]"

section \<open>Evaluation on concrete inputs\<close>

lemmas eval_defs = of_ascii_def ascii_toLowerCase_def trim_def isWhiteSpace_def SPACE_def
  sheet_row_def STAR_def TAB_def QUOTE_def PROTO_def empty_object_def admitted_def goalName_def
  goal_of_row_def trim_or_empty_def on_data_def set_object_def set_primitive_def
  on_data_index_def loadGoals_def loadGoals_index_def

lemmas index_defs = isDigit_def digits_value_def array_index_def index_rank_def
  own_property_keys_def Object_keys_def Object_entries_def Object_values_def

section \<open>Strings\<close>

text \<open>\<open>includes\<close> is the substring relation: the needle lies between some prefix and suffix.\<close>

lemma includes_str_sublist: "includes_str hay needle \<longleftrightarrow> sublist needle hay"
  by (induction hay) (simp_all add: sublist_Cons_right)

lemma includes_str_sublist_fun: "includes_str hay = (\<lambda>needle. sublist needle hay)"
  by (rule ext) (rule includes_str_sublist)

lemma includes_str_append: "includes_str (before @ needle @ behind) needle"
  by (simp add: includes_str_sublist)

text \<open>
  \<open>split\<close> cuts at every separator and nowhere else: no piece contains the separator,
  and joining the pieces with the separator gives the string back.
\<close>

lemma split_str_nonempty: "split_str sep s \<noteq> []"
  by (induction s) (simp_all split: list.splits)

lemma split_str_pieces: "piece \<in> set (split_str sep s) \<Longrightarrow> sep \<notin> set piece"
proof (induction s arbitrary: piece)
  case Nil
  then show ?case by simp
next
  case (Cons c cs)
  show ?case
  proof (cases "c = sep")
    case True
    with Cons show ?thesis by auto
  next
    case False
    obtain p ps where ps: "split_str sep cs = p # ps"
      using split_str_nonempty [of sep cs] by (cases "split_str sep cs") auto
    with Cons False show ?thesis by auto
  qed
qed

lemma join_split_str: "join [sep] (split_str sep s) = s"
proof (induction s)
  case Nil
  then show ?case by simp
next
  case (Cons c cs)
  obtain p ps where ps: "split_str sep cs = p # ps"
    using split_str_nonempty [of sep cs] by (cases "split_str sep cs") auto
  show ?case
  proof (cases "c = sep")
    case True
    with Cons ps show ?thesis by simp
  next
    case False
    with Cons ps show ?thesis by (cases ps) simp_all
  qed
qed

lemma trim_empty: "trim [] = []"
  by (simp add: trim_def)

section \<open>Objects\<close>

lemma set_Object_entries: "set (Object_entries obj) = set (own obj)"
  by (auto simp: Object_entries_def)

lemma length_Object_entries: "length (Object_entries obj) = length (own obj)"
proof -
  have "length (filter (\<lambda>p. array_index (fst p) \<noteq> None) (own obj))
        + length (filter (\<lambda>p. \<not> array_index (fst p) \<noteq> None) (own obj)) = length (own obj)"
    by (rule sum_length_filter_compl)
  then show ?thesis by (simp add: Object_entries_def)
qed

lemma length_Object_values: "length (Object_values obj) = length (own obj)"
  by (simp add: Object_values_def length_Object_entries)

lemma map_fst_insort_key:
  "map fst (insort_key (\<lambda>p. f (fst p)) x xs) = insort_key f (fst x) (map fst xs)"
  by (induction xs) simp_all

lemma map_fst_sort_key:
  "map fst (sort_key (\<lambda>p. f (fst p)) xs) = sort_key f (map fst xs)"
  by (induction xs) (simp_all add: map_fst_insort_key)

text \<open>\<open>Object.keys\<close> lists the keys of \<open>Object.entries\<close>, in the same order.\<close>

lemma map_fst_Object_entries: "map fst (Object_entries obj) = Object_keys obj"
  by (simp add: Object_entries_def Object_keys_def own_property_keys_def map_fst_sort_key
      filter_map comp_def)

lemma set_own_property_keys: "set (own_property_keys ks) = set ks"
  by (auto simp: own_property_keys_def)

text \<open>When no key is an array index, the enumeration order is the insertion order.\<close>

lemma Object_entries_insertion_order:
  assumes "\<forall>k\<in>fst ` set (own obj). array_index k = None"
  shows "Object_entries obj = own obj"
proof -
  have "filter (\<lambda>p. array_index (fst p) \<noteq> None) (own obj) = []"
    using assms by (auto simp: filter_empty_conv)
  moreover have "filter (\<lambda>p. array_index (fst p) = None) (own obj) = own obj"
    using assms by (auto simp: filter_id_conv)
  ultimately show ?thesis by (simp add: Object_entries_def)
qed

text \<open>
  While the prototype is \<open>Object.prototype\<close>, the names that read as a truthy inherited
  value are \<open>__proto__\<close>, \<open>constructor\<close> and the names of the inherited functions.
\<close>

lemma inherited_Object_prototype:
  "proto obj = None \<Longrightarrow>
     truthy (inherited obj k) \<longleftrightarrow>
       k = PROTO \<or> k = of_ascii ''constructor'' \<or> k \<in> set Object_prototype_functions"
  by (simp add: inherited_def Object_prototype_get_def)

lemma goal_get_PROTO: "goal_get r PROTO = None"
  by (simp add: goal_get_def PROTO_def of_ascii_def)

section \<open>The loop of the resolver\<close>

lemma partial_matches_filter:
  "partial_matches q es acc =
     acc @ map (\<lambda>p. GoalV (snd p))
       (filter (\<lambda>p. includes_str (fst p) q
                  \<or> list_all (includes_str (fst p)) (split_str SPACE q)) es)"
  by (induction q es acc rule: partial_matches.induct) simp_all

lemma filteredGoals_filter:
  "filteredGoals gs token = filter (\<lambda>g. sublist token (difficulty g)) gs"
  by (induction gs) (simp_all add: includes_str_sublist)

text \<open>
  The \<open>/goal\<close> handler trims the name before it calls \<open>searchGoals\<close>: a name that
  trims and lowercases to a key is answered with that goal, formatted in full.
\<close>

lemma goal_handler_exact_match:
  assumes "loadGoals lc up = Inr goals" and "trim s \<noteq> []"
    and "map_of (own goals) (lc (trim s)) = Some g"
  shows "\<exists>formatted. formatGoal (GoalV g) True = Inr formatted
     \<and> goal_handler lc up (Text s)
         = ([LoadGoals_called, SearchGoals_called], Responded 200 (Send formatted))"
  using assms
  by (simp add: goal_handler_def searchGoals_def get_property_def formatGoal_def Let_def)

section \<open>The loader, row by row\<close>

lemma loadGoals_Csv: "loadGoals lc (Csv rows) = Inr (on_rows lc empty_object rows)"
  by (simp add: loadGoals_def)

lemma on_rows_append:
  "on_rows lc g (xs @ ys) = on_rows lc (on_rows lc g xs) ys"
  by (induction xs arbitrary: g) simp_all

text \<open>Rows that are not admitted leave the object as it is.\<close>

lemma on_rows_filter_admitted:
  "on_rows lc g (filter admitted rs) = on_rows lc g rs"
  by (induction rs arbitrary: g) (simp_all add: on_data_def)

lemma own_on_data_keys:
  "fst ` set (own (on_data lc g r)) =
     fst ` set (own g) \<union> (if admitted r \<and> goalName lc r \<noteq> PROTO then {goalName lc r} else {})"
  by (auto simp: on_data_def set_object_def update_keys simp flip: set_map)

lemma own_on_rows_keys:
  "fst ` set (own (on_rows lc g rs)) =
     fst ` set (own g) \<union> {goalName lc r | r. r \<in> set rs \<and> admitted r \<and> goalName lc r \<noteq> PROTO}"
  by (induction rs arbitrary: g) (auto simp: own_on_data_keys split: if_splits)

text \<open>
  The keys of the loaded object are the keys of the admitted rows, except \<open>__proto__\<close>,
  and no key occurs twice.
\<close>

lemma own_loaded_keys:
  "fst ` set (own (on_rows lc empty_object rows)) =
     {goalName lc r | r. r \<in> set rows \<and> admitted r \<and> goalName lc r \<noteq> PROTO}"
  by (simp add: own_on_rows_keys empty_object_def)

lemma distinct_on_data:
  "distinct (map fst (own g)) \<Longrightarrow> distinct (map fst (own (on_data lc g r)))"
  by (simp add: on_data_def set_object_def distinct_update)

lemma distinct_on_rows:
  "distinct (map fst (own g)) \<Longrightarrow> distinct (map fst (own (on_rows lc g rs)))"
  by (induction rs arbitrary: g) (simp_all add: distinct_on_data)

lemma distinct_loaded_keys: "distinct (map fst (own (on_rows lc empty_object rows)))"
  by (rule distinct_on_rows) (simp add: empty_object_def)

text \<open>
  Every record the loaded object enumerates was built from an admitted row with its key;
  every admitted row has its key among the keys of the object, unless the key is
  \<open>__proto__\<close>, which is never among them.
\<close>

lemma set_AList_update:
  "(k', v') \<in> set (AList.update k v al) \<Longrightarrow> (k' = k \<and> v' = v) \<or> (k', v') \<in> set al"
  by (induction al) (auto split: if_splits)

lemma own_on_data_entry:
  "(k, g) \<in> set (own (on_data lc g0 r)) \<Longrightarrow>
     (k, g) \<in> set (own g0) \<or> (admitted r \<and> goalName lc r = k \<and> g = goal_of_row r)"
  by (auto simp: on_data_def set_object_def split: if_splits dest: set_AList_update)

lemma own_on_rows_entry:
  "(k, g) \<in> set (own (on_rows lc g0 rs)) \<Longrightarrow>
     (k, g) \<in> set (own g0) \<or> (\<exists>r\<in>set rs. admitted r \<and> goalName lc r = k \<and> g = goal_of_row r)"
proof (induction rs arbitrary: g0)
  case Nil
  then show ?case by simp
next
  case (Cons r rs)
  from Cons.IH [of "on_data lc g0 r"] Cons.prems
  have "(k, g) \<in> set (own (on_data lc g0 r))
      \<or> (\<exists>r\<in>set rs. admitted r \<and> goalName lc r = k \<and> g = goal_of_row r)"
    by simp
  then show ?case using own_on_data_entry [of k g lc g0 r] by auto
qed

lemma loaded_entry_from_admitted_row:
  assumes "(k, g) \<in> set (Object_entries (on_rows lc empty_object rows))"
  shows "\<exists>r\<in>set rows. admitted r \<and> goalName lc r = k \<and> g = goal_of_row r"
  using assms own_on_rows_entry [of k g lc empty_object rows]
  by (simp add: set_Object_entries empty_object_def)

lemma admitted_row_stored:
  assumes "r \<in> set rows" and "admitted r" and "goalName lc r \<noteq> PROTO"
  shows "goalName lc r \<in> set (Object_keys (on_rows lc empty_object rows))"
  using assms own_loaded_keys [of lc rows]
  by (auto simp: Object_keys_def set_own_property_keys)

lemma proto_key_never_stored:
  "PROTO \<notin> set (Object_keys (on_rows lc empty_object rows))"
  using own_loaded_keys [of lc rows]
  by (auto simp: Object_keys_def set_own_property_keys)

text \<open>Rows with another key leave the entry of a key, and the prototype, as they are.\<close>

lemma on_rows_untouched:
  "\<forall>r\<in>set rs. admitted r \<longrightarrow> goalName lc r \<noteq> k \<Longrightarrow>
     map_of (own (on_rows lc g rs)) k = map_of (own g) k"
  by (induction rs arbitrary: g) (auto simp: on_data_def set_object_def update_conv')

lemma on_rows_proto_untouched:
  "\<forall>r\<in>set rs. admitted r \<longrightarrow> goalName lc r \<noteq> PROTO \<Longrightarrow>
     proto (on_rows lc g rs) = proto g"
  by (induction rs arbitrary: g) (auto simp: on_data_def set_object_def)

lemma on_rows_own_untouched_by_proto:
  "map_of (own (on_rows lc g rs)) PROTO = map_of (own g) PROTO"
  by (induction rs arbitrary: g) (auto simp: on_data_def set_object_def update_conv')

text \<open>Both loaders create the same own keys in the same order.\<close>

lemma index_keys_on_data:
  "map fst (own a) = map fst (own b) \<Longrightarrow>
     map fst (own (on_data_index lc a r)) = map fst (own (on_data lc b r))"
  by (simp add: on_data_index_def on_data_def set_primitive_def set_object_def update_keys)

lemma index_keys_on_rows:
  "map fst (own a) = map fst (own b) \<Longrightarrow>
     map fst (own (on_rows_index lc a rs)) = map fst (own (on_rows lc b rs))"
proof (induction rs arbitrary: a b)
  case Nil
  then show ?case by simp
next
  case (Cons r rs)
  from Cons.prems have "map fst (own (on_data_index lc a r)) = map fst (own (on_data lc b r))"
    by (rule index_keys_on_data)
  then show ?case by (simp add: Cons.IH)
qed

section \<open>The sample sheets, loaded\<close>

lemma skip_goals_own:
  "own skip_goals =
        [(of_ascii ''jano skip glitch'',
          \<lparr>name = of_ascii ''Jano Skip Glitch'', description = of_ascii ''Skip the Jano fight'',
           levels = [], difficulty = [STAR, STAR], videoLink = of_ascii ''video''\<rparr>),
         (of_ascii ''flame skip'',
          \<lparr>name = of_ascii ''Flame Skip'', description = of_ascii ''Skip the flames'',
           levels = [], difficulty = [STAR], videoLink = []\<rparr>),
         (of_ascii ''jano'',
          \<lparr>name = of_ascii ''Jano'', description = of_ascii ''Defeat Jano'',
           levels = [], difficulty = [STAR, STAR, STAR], videoLink = []\<rparr>)]"
  by (simp add: skip_goals_def skip_sheet_def eval_defs)

lemma skip_goals_proto: "proto skip_goals = None"
  by (simp add: skip_goals_def skip_sheet_def eval_defs)

lemma skip_goals_entries: "Object_entries skip_goals = own skip_goals"
  by (rule Object_entries_insertion_order) (simp add: skip_goals_own of_ascii_def index_defs)

lemmas skip_goals_simps = skip_goals_entries skip_goals_own skip_goals_proto

lemma skip_goals_loaded: "loadGoals ascii_toLowerCase (Csv skip_sheet) = Inr skip_goals"
  by (simp add: loadGoals_Csv skip_goals_def)

lemma skip_goals_values:
  "Object_values skip_goals =
     [\<lparr>name = of_ascii ''Jano Skip Glitch'', description = of_ascii ''Skip the Jano fight'',
       levels = [], difficulty = [STAR, STAR], videoLink = of_ascii ''video''\<rparr>,
      \<lparr>name = of_ascii ''Flame Skip'', description = of_ascii ''Skip the flames'',
       levels = [], difficulty = [STAR], videoLink = []\<rparr>,
      \<lparr>name = of_ascii ''Jano'', description = of_ascii ''Defeat Jano'',
       levels = [], difficulty = [STAR, STAR, STAR], videoLink = []\<rparr>]"
  by (simp add: Object_values_def skip_goals_entries skip_goals_own)

lemma duplicate_rows:
  "duplicate_sheet =
     [] @ sheet_row ''Flame Skip'' ''old text'' [STAR] []
        # [sheet_row ''Jano'' [] [] []]
        @ sheet_row '' FLAME SKIP '' ''new text'' [STAR, STAR] []
        # [sheet_row [] ''nameless'' [] [], sheet_row ''Walk'' ''Walk only'' [] []]"
  by (simp add: duplicate_sheet_def)

lemma duplicate_goals_own:
  "own (on_rows ascii_toLowerCase empty_object duplicate_sheet) =
     [(of_ascii ''flame skip'',
       \<lparr>name = of_ascii ''FLAME SKIP'', description = of_ascii ''new text'',
        levels = [], difficulty = [STAR, STAR], videoLink = []\<rparr>),
      (of_ascii ''walk'',
       \<lparr>name = of_ascii ''Walk'', description = of_ascii ''Walk only'',
        levels = [], difficulty = [], videoLink = []\<rparr>)]"
  by (simp add: duplicate_sheet_def eval_defs)

lemma duplicate_goals_values:
  "Object_values (on_rows ascii_toLowerCase empty_object duplicate_sheet) =
     [\<lparr>name = of_ascii ''FLAME SKIP'', description = of_ascii ''new text'',
        levels = [], difficulty = [STAR, STAR], videoLink = []\<rparr>,
      \<lparr>name = of_ascii ''Walk'', description = of_ascii ''Walk only'',
        levels = [], difficulty = [], videoLink = []\<rparr>]"
proof -
  have "Object_entries (on_rows ascii_toLowerCase empty_object duplicate_sheet)
          = own (on_rows ascii_toLowerCase empty_object duplicate_sheet)"
    by (rule Object_entries_insertion_order)
      (simp add: duplicate_goals_own of_ascii_def index_defs)
  then show ?thesis by (simp add: Object_values_def duplicate_goals_own)
qed

lemma numbered_goals_own:
  "own (on_rows ascii_toLowerCase empty_object numbered_sheet) =
     [(of_ascii ''b'',
       \<lparr>name = of_ascii ''b'', description = of_ascii ''letter'',
        levels = [], difficulty = [], videoLink = []\<rparr>),
      (of_ascii ''10'',
       \<lparr>name = of_ascii ''10'', description = of_ascii ''ten'',
        levels = [], difficulty = [], videoLink = []\<rparr>),
      (of_ascii ''9'',
       \<lparr>name = of_ascii ''9'',
        description = of_ascii
         (''0123456789012345678901234567890123456789012345678901234567890123456789''
          @ ''0123456789012345678901234567890123456789''),
        levels = [], difficulty = [], videoLink = of_ascii ''clip''\<rparr>),
      (of_ascii ''07'',
       \<lparr>name = of_ascii ''07'', description = of_ascii ''seven'',
        levels = [], difficulty = [], videoLink = []\<rparr>)]"
  by (simp add: numbered_sheet_def eval_defs)

lemma numbered_goals_values:
  "Object_values (on_rows ascii_toLowerCase empty_object numbered_sheet) =
     [\<lparr>name = of_ascii ''9'',
        description = of_ascii
         (''0123456789012345678901234567890123456789012345678901234567890123456789''
          @ ''0123456789012345678901234567890123456789''),
        levels = [], difficulty = [], videoLink = of_ascii ''clip''\<rparr>,
      \<lparr>name = of_ascii ''10'', description = of_ascii ''ten'',
        levels = [], difficulty = [], videoLink = []\<rparr>,
      \<lparr>name = of_ascii ''b'', description = of_ascii ''letter'',
        levels = [], difficulty = [], videoLink = []\<rparr>,
      \<lparr>name = of_ascii ''07'', description = of_ascii ''seven'',
        levels = [], difficulty = [], videoLink = []\<rparr>]"
  by (simp add: Object_values_def Object_entries_def numbered_goals_own of_ascii_def
      array_index_def index_rank_def isDigit_def digits_value_def)

text \<open>
  Array-index keys come first in ascending order: the sheet lists \<open>b\<close>, \<open>10\<close>, \<open>9\<close>,
  \<open>07\<close>, the object enumerates \<open>9\<close>, \<open>10\<close>, \<open>b\<close>, \<open>07\<close>.
\<close>

lemma Object_keys_index_example:
  "Object_keys (on_rows ascii_toLowerCase empty_object numbered_sheet)
     = [of_ascii ''9'', of_ascii ''10'', of_ascii ''b'', of_ascii ''07'']"
  by (simp add: Object_keys_def own_property_keys_def numbered_goals_own of_ascii_def
      array_index_def index_rank_def isDigit_def digits_value_def)

text \<open>
  A query that names an inherited property takes the exact-match branch although no goal
  has that key: on the empty sheet, \<open>Constructor\<close> returns the function \<open>Object\<close>.
\<close>

lemma searchGoals_constructor_example:
  "searchGoals ascii_toLowerCase empty_object (of_ascii ''Constructor'')
     = [Function (of_ascii ''Object'')]"
  by (simp add: searchGoals_def get_property_def inherited_def Object_prototype_get_def
      eval_defs)

text \<open>The random handler writes a response whatever the sheet and the random number.\<close>

lemma random_handler_always_responds:
  "\<exists>events status body. random_handler toLowerCase floor_random up
      = (events, Responded status body)"
  by (simp add: random_handler_def Let_def split: sum.splits)

section \<open>Exact matches\<close>

text \<open>
  C1 (as amended). \<open>searchGoals\<close> lowercases the query and does not trim it; the handlers
  trim the name before they call it. For every goals object and every query whose
  lowercase form is a key of the object, \<open>searchGoals\<close> returns exactly one record, the one
  stored under that key, whatever other keys contain the query.
\<close>

theorem searchGoals_exact_match:
  assumes "map_of (own goals) (toLowerCase query) = Some g"
  shows "searchGoals toLowerCase goals query = [GoalV g]"
  using assms by (simp add: searchGoals_def get_property_def)

text \<open>
  On the sample sheet the query \<open>JANO\<close> returns the goal \<open>Jano\<close> alone, although the key
  \<open>jano skip glitch\<close> contains it.
\<close>

theorem searchGoals_exact_match_witness:
  "map_of (own skip_goals) (ascii_toLowerCase (of_ascii ''JANO''))
     = Some \<lparr>name = of_ascii ''Jano'', description = of_ascii ''Defeat Jano'',
           levels = [], difficulty = [STAR, STAR, STAR], videoLink = []\<rparr>
   \<and> searchGoals ascii_toLowerCase skip_goals (of_ascii ''JANO'')
     = [GoalV \<lparr>name = of_ascii ''Jano'', description = of_ascii ''Defeat Jano'',
           levels = [], difficulty = [STAR, STAR, STAR], videoLink = []\<rparr>]"
proof -
  have h: "map_of (own skip_goals) (ascii_toLowerCase (of_ascii ''JANO''))
     = Some \<lparr>name = of_ascii ''Jano'', description = of_ascii ''Defeat Jano'',
           levels = [], difficulty = [STAR, STAR, STAR], videoLink = []\<rparr>"
    by (simp add: skip_goals_own of_ascii_def ascii_toLowerCase_def)
  from searchGoals_exact_match [where toLowerCase = ascii_toLowerCase and goals = skip_goals
      and query = "of_ascii ''JANO''", OF h] h
  show ?thesis by simp
qed

text \<open>
  With trimming counted into the normalisation the statement fails: the query \<open>Jano\<close>
  with a leading space trims and lowercases to the key \<open>jano\<close>, but \<open>searchGoals\<close> looks
  up the untrimmed string, finds no property, splits it into an empty piece and \<open>jano\<close>,
  and returns the two goals whose keys contain \<open>jano\<close>.
\<close>

theorem searchGoals_untrimmed_counterexample:
  "map_of (own skip_goals) (ascii_toLowerCase (trim (of_ascii '' Jano'')))
     = Some \<lparr>name = of_ascii ''Jano'', description = of_ascii ''Defeat Jano'',
           levels = [], difficulty = [STAR, STAR, STAR], videoLink = []\<rparr>
   \<and> searchGoals ascii_toLowerCase skip_goals (of_ascii '' Jano'')
     = [GoalV \<lparr>name = of_ascii ''Jano Skip Glitch'',
                description = of_ascii ''Skip the Jano fight'',
                levels = [], difficulty = [STAR, STAR], videoLink = of_ascii ''video''\<rparr>,
        GoalV \<lparr>name = of_ascii ''Jano'', description = of_ascii ''Defeat Jano'',
                levels = [], difficulty = [STAR, STAR, STAR], videoLink = []\<rparr>]"
  by (simp add: searchGoals_def get_property_def inherited_def Object_prototype_get_def
      Object_prototype_functions_def partial_matches_filter skip_goals_simps eval_defs)

section \<open>Fuzzy matches\<close>

text \<open>
  C2 (as amended). For every goals object and every query whose lowercase form is neither
  a key of the object nor the name of a truthy inherited property, \<open>searchGoals\<close> returns
  exactly the records of the keys that contain the lowercased query as a substring, or
  contain every piece that \<open>split(' ')\<close> cuts from the lowercased query, in the order of
  \<open>Object.entries\<close>; when no key matches by either rule the result is empty. By
  \<open>Object_entries_insertion_order\<close> the order is the insertion order when no key is an
  array index.
\<close>

theorem searchGoals_fuzzy_match:
  assumes "toLowerCase query \<notin> fst ` set (own goals)"
    and "\<not> truthy (inherited goals (toLowerCase query))"
  shows "searchGoals toLowerCase goals query =
           map (\<lambda>p. GoalV (snd p))
             (filter (\<lambda>p. sublist (toLowerCase query) (fst p)
                        \<or> list_all (\<lambda>word. sublist word (fst p))
                             (split_str SPACE (toLowerCase query)))
                (Object_entries goals))
         \<and> ((\<forall>k\<in>fst ` set (own goals).
                \<not> sublist (toLowerCase query) k
                \<and> \<not> list_all (\<lambda>word. sublist word k) (split_str SPACE (toLowerCase query)))
              \<longrightarrow> searchGoals toLowerCase goals query = [])"
proof -
  have "map_of (own goals) (toLowerCase query) = None"
    using assms(1) by (simp add: map_of_eq_None_iff)
  then have eq: "searchGoals toLowerCase goals query =
           map (\<lambda>p. GoalV (snd p))
             (filter (\<lambda>p. sublist (toLowerCase query) (fst p)
                        \<or> list_all (\<lambda>word. sublist word (fst p))
                             (split_str SPACE (toLowerCase query)))
                (Object_entries goals))"
    using assms(2)
    by (simp add: searchGoals_def get_property_def partial_matches_filter
        includes_str_sublist includes_str_sublist_fun Let_def)
  have "searchGoals toLowerCase goals query = []"
    if "\<forall>k\<in>fst ` set (own goals).
          \<not> sublist (toLowerCase query) k
          \<and> \<not> list_all (\<lambda>word. sublist word k) (split_str SPACE (toLowerCase query))"
    unfolding eq using that by (auto simp: filter_empty_conv set_Object_entries)
  with eq show ?thesis by blast
qed

text \<open>
  On the sample sheet the query \<open>jano skip\<close> matches the key \<open>jano skip glitch\<close> only,
  and the query \<open>glide\<close>, which no key contains, returns nothing.
\<close>

theorem searchGoals_fuzzy_match_witness:
  "ascii_toLowerCase (of_ascii ''jano skip'') \<notin> fst ` set (own skip_goals)
   \<and> \<not> truthy (inherited skip_goals (ascii_toLowerCase (of_ascii ''jano skip'')))
   \<and> searchGoals ascii_toLowerCase skip_goals (of_ascii ''jano skip'')
       = [GoalV \<lparr>name = of_ascii ''Jano Skip Glitch'',
                 description = of_ascii ''Skip the Jano fight'',
                 levels = [], difficulty = [STAR, STAR], videoLink = of_ascii ''video''\<rparr>]
   \<and> ascii_toLowerCase (of_ascii ''glide'') \<notin> fst ` set (own skip_goals)
   \<and> \<not> truthy (inherited skip_goals (ascii_toLowerCase (of_ascii ''glide'')))
   \<and> searchGoals ascii_toLowerCase skip_goals (of_ascii ''glide'') = []"
proof -
  have h1: "ascii_toLowerCase (of_ascii ''jano skip'') \<notin> fst ` set (own skip_goals)"
    by (simp add: skip_goals_own of_ascii_def ascii_toLowerCase_def)
  have h2: "\<not> truthy (inherited skip_goals (ascii_toLowerCase (of_ascii ''jano skip'')))"
    by (simp add: inherited_def Object_prototype_get_def Object_prototype_functions_def
        skip_goals_simps eval_defs)
  have "searchGoals ascii_toLowerCase skip_goals (of_ascii ''jano skip'') =
           map (\<lambda>p. GoalV (snd p))
             (filter (\<lambda>p. sublist (ascii_toLowerCase (of_ascii ''jano skip'')) (fst p)
                        \<or> list_all (\<lambda>word. sublist word (fst p))
                             (split_str SPACE (ascii_toLowerCase (of_ascii ''jano skip''))))
                (Object_entries skip_goals))"
    using searchGoals_fuzzy_match [where toLowerCase = ascii_toLowerCase
          and goals = skip_goals and query = "of_ascii ''jano skip''", OF h1 h2]
    by (rule conjunct1)
  also have "\<dots> = [GoalV \<lparr>name = of_ascii ''Jano Skip Glitch'',
                 description = of_ascii ''Skip the Jano fight'',
                 levels = [], difficulty = [STAR, STAR], videoLink = of_ascii ''video''\<rparr>]"
    unfolding includes_str_sublist [symmetric]
    by (simp add: skip_goals_simps eval_defs)
  finally have match: "searchGoals ascii_toLowerCase skip_goals (of_ascii ''jano skip'')
       = [GoalV \<lparr>name = of_ascii ''Jano Skip Glitch'',
                 description = of_ascii ''Skip the Jano fight'',
                 levels = [], difficulty = [STAR, STAR], videoLink = of_ascii ''video''\<rparr>]" .
  have g1: "ascii_toLowerCase (of_ascii ''glide'') \<notin> fst ` set (own skip_goals)"
    by (simp add: skip_goals_own of_ascii_def ascii_toLowerCase_def)
  have g2: "\<not> truthy (inherited skip_goals (ascii_toLowerCase (of_ascii ''glide'')))"
    by (simp add: inherited_def Object_prototype_get_def Object_prototype_functions_def
        skip_goals_simps eval_defs)
  have g3: "\<forall>k\<in>fst ` set (own skip_goals).
          \<not> sublist (ascii_toLowerCase (of_ascii ''glide'')) k
          \<and> \<not> list_all (\<lambda>word. sublist word k)
                (split_str SPACE (ascii_toLowerCase (of_ascii ''glide'')))"
    unfolding includes_str_sublist [symmetric]
    by (simp add: skip_goals_own eval_defs)
  have none: "searchGoals ascii_toLowerCase skip_goals (of_ascii ''glide'') = []"
    using searchGoals_fuzzy_match [where toLowerCase = ascii_toLowerCase
          and goals = skip_goals and query = "of_ascii ''glide''", OF g1 g2] g3
    by blast
  from h1 h2 match g1 g2 none show ?thesis by blast
qed

text \<open>
  With whitespace-separated tokens the statement fails: the query \<open>skip\<close>, TAB, \<open>jano\<close>
  equals no key; its tokens \<open>skip\<close> and \<open>jano\<close> are both substrings of the key
  \<open>jano skip glitch\<close>, so the rule of the specification returns that goal; \<open>split(' ')\<close>
  leaves the query in one piece, which no key contains, and \<open>searchGoals\<close> returns nothing.
\<close>

theorem searchGoals_tab_counterexample:
  "ascii_toLowerCase (of_ascii ''skip'' @ [TAB] @ of_ascii ''jano'') \<notin> fst ` set (own skip_goals)
   \<and> searchGoals ascii_toLowerCase skip_goals (of_ascii ''skip'' @ [TAB] @ of_ascii ''jano'') = []
   \<and> spec_fuzzy_matches ascii_toLowerCase skip_goals (of_ascii ''skip'' @ [TAB] @ of_ascii ''jano'')
       = [GoalV \<lparr>name = of_ascii ''Jano Skip Glitch'',
                 description = of_ascii ''Skip the Jano fight'',
                 levels = [], difficulty = [STAR, STAR], videoLink = of_ascii ''video''\<rparr>]"
  unfolding spec_fuzzy_matches_def includes_str_sublist [symmetric]
  by (simp add: searchGoals_def get_property_def inherited_def Object_prototype_get_def
      Object_prototype_functions_def partial_matches_filter skip_goals_simps eval_defs)

section \<open>Which rows the loader stores\<close>

text \<open>
  C3. A row with a non-empty Name and a non-empty Description should have a record in the
  object the loader returns. The row named \<open>__proto__\<close> has none: the assignment
  \<open>goals["__proto__"] = {...}\<close> replaces the prototype of \<open>goals\<close> and creates no own
  property, so \<open>Object.entries\<close> is empty and \<open>/goals\<close> reports no goal. For every
  other key the invariant holds, by \<open>admitted_row_stored\<close>,
  \<open>loaded_entry_from_admitted_row\<close> and \<open>on_rows_filter_admitted\<close>.
\<close>

theorem loadGoals_proto_row_not_stored:
  "admitted (sheet_row ''__proto__'' ''Prototype run'' [STAR] [])
   \<and> loadGoals ascii_toLowerCase (Csv proto_sheet)
       = Inr \<lparr>own = [],
              proto = Some \<lparr>name = of_ascii ''__proto__'',
                             description = of_ascii ''Prototype run'',
                             levels = [], difficulty = [STAR], videoLink = []\<rparr>\<rparr>
   \<and> Object_entries (on_rows ascii_toLowerCase empty_object proto_sheet) = []
   \<and> goals_handler ascii_toLowerCase (Csv proto_sheet)
       = ([LoadGoals_called], Responded 200 (Json_goals 0 []))"
  by (simp add: proto_sheet_def goals_handler_def Object_values_def Object_entries_def
      eval_defs)

section \<open>Rows with the same name\<close>

text \<open>
  C4. When two admitted rows have the same key and no admitted row after the second has
  it, the loaded object holds under that key the record built from the second:
  \<open>goals[key]\<close> reads it, and for every key but \<open>__proto__\<close> it is the own property of
  that key.
\<close>

theorem loadGoals_last_row_wins:
  assumes "admitted r1" and "admitted r2"
    and "goalName toLowerCase r1 = goalName toLowerCase r2"
    and "\<forall>r\<in>set later. admitted r \<longrightarrow> goalName toLowerCase r \<noteq> goalName toLowerCase r2"
  shows "\<exists>goals. loadGoals toLowerCase (Csv (earlier @ r1 # between @ r2 # later)) = Inr goals
      \<and> get_property goals (goalName toLowerCase r2) = GoalV (goal_of_row r2)
      \<and> (goalName toLowerCase r2 \<noteq> PROTO
           \<longrightarrow> map_of (own goals) (goalName toLowerCase r2) = Some (goal_of_row r2))"
proof -
  define k where "k = goalName toLowerCase r2"
  define g0 where "g0 = on_rows toLowerCase empty_object (earlier @ r1 # between)"
  define g1 where "g1 = on_data toLowerCase g0 r2"
  define goals where "goals = on_rows toLowerCase g1 later"
  have split: "earlier @ r1 # between @ r2 # later = (earlier @ r1 # between) @ r2 # later"
    by simp
  have load: "loadGoals toLowerCase (Csv (earlier @ r1 # between @ r2 # later)) = Inr goals"
    unfolding split by (simp add: loadGoals_def on_rows_append g0_def g1_def goals_def)
  have later: "\<forall>r\<in>set later. admitted r \<longrightarrow> goalName toLowerCase r \<noteq> k"
    using assms(4) by (simp add: k_def)
  have own_eq: "map_of (own goals) k = map_of (own g1) k"
    unfolding goals_def using later by (rule on_rows_untouched)
  have no_proto_key: "map_of (own goals) PROTO = None"
    unfolding goals_def g1_def g0_def
    by (simp add: on_rows_own_untouched_by_proto on_data_def set_object_def update_conv'
        empty_object_def)
  show ?thesis
  proof (cases "k = PROTO")
    case False
    then have "map_of (own g1) k = Some (goal_of_row r2)"
      using assms(2) by (simp add: g1_def on_data_def set_object_def k_def update_conv')
    with own_eq have "map_of (own goals) k = Some (goal_of_row r2)" by simp
    then show ?thesis using load by (auto simp: k_def get_property_def)
  next
    case True
    then have "proto g1 = Some (goal_of_row r2)"
      using assms(2) by (simp add: g1_def on_data_def set_object_def k_def)
    moreover have "proto goals = proto g1"
      unfolding goals_def using later True by (intro on_rows_proto_untouched) simp
    ultimately have "proto goals = Some (goal_of_row r2)" by simp
    then have "get_property goals PROTO = GoalV (goal_of_row r2)"
      using no_proto_key
      by (simp add: get_property_def inherited_def goal_get_PROTO Object_prototype_get_def)
    then show ?thesis using load True by (auto simp: k_def)
  qed
qed

text \<open>
  The sheet with \<open>Flame Skip\<close> in its first row and \<open>FLAME SKIP\<close>, between spaces, in
  its third: the key \<open>flame skip\<close> holds the record of the third row.
\<close>

theorem loadGoals_last_row_wins_witness:
  "admitted (sheet_row ''Flame Skip'' ''old text'' [STAR] [])
   \<and> admitted (sheet_row '' FLAME SKIP '' ''new text'' [STAR, STAR] [])
   \<and> goalName ascii_toLowerCase (sheet_row ''Flame Skip'' ''old text'' [STAR] [])
       = goalName ascii_toLowerCase (sheet_row '' FLAME SKIP '' ''new text'' [STAR, STAR] [])
   \<and> goalName ascii_toLowerCase (sheet_row '' FLAME SKIP '' ''new text'' [STAR, STAR] [])
       = of_ascii ''flame skip''
   \<and> of_ascii ''flame skip'' \<noteq> PROTO
   \<and> (\<exists>goals. loadGoals ascii_toLowerCase (Csv duplicate_sheet) = Inr goals
        \<and> get_property goals (of_ascii ''flame skip'')
            = GoalV \<lparr>name = of_ascii ''FLAME SKIP'', description = of_ascii ''new text'',
                     levels = [], difficulty = [STAR, STAR], videoLink = []\<rparr>
        \<and> map_of (own goals) (of_ascii ''flame skip'')
            = Some \<lparr>name = of_ascii ''FLAME SKIP'', description = of_ascii ''new text'',
                     levels = [], difficulty = [STAR, STAR], videoLink = []\<rparr>)"
proof -
  let ?r1 = "sheet_row ''Flame Skip'' ''old text'' [STAR] []"
  let ?r2 = "sheet_row '' FLAME SKIP '' ''new text'' [STAR, STAR] []"
  let ?later = "[sheet_row [] ''nameless'' [] [], sheet_row ''Walk'' ''Walk only'' [] []]"
  have a1: "admitted ?r1" and a2: "admitted ?r2"
    by (simp_all add: eval_defs)
  have k: "goalName ascii_toLowerCase ?r2 = of_ascii ''flame skip''"
    by (simp add: eval_defs)
  have same: "goalName ascii_toLowerCase ?r1 = goalName ascii_toLowerCase ?r2"
    by (simp add: eval_defs)
  have later: "\<forall>r\<in>set ?later. admitted r \<longrightarrow>
      goalName ascii_toLowerCase r \<noteq> goalName ascii_toLowerCase ?r2"
    by (simp add: eval_defs)
  have np: "of_ascii ''flame skip'' \<noteq> PROTO"
    by (simp add: eval_defs)
  have g: "goal_of_row ?r2 = \<lparr>name = of_ascii ''FLAME SKIP'', description = of_ascii ''new text'',
                     levels = [], difficulty = [STAR, STAR], videoLink = []\<rparr>"
    by (simp add: eval_defs)
  from loadGoals_last_row_wins [where toLowerCase = ascii_toLowerCase and ?r1.0 = ?r1
      and ?r2.0 = ?r2 and later = ?later and earlier = "[]"
      and between = "[sheet_row ''Jano'' [] [] []]", OF a1 a2 same later]
  show ?thesis
    unfolding duplicate_rows [symmetric] k g using a1 a2 same k np by simp
qed

section \<open>The difficulty filter\<close>

text \<open>
  C5. For every goals object and every difficulty token, the filter of
  \<open>/goals/difficulty/:level\<close> returns exactly the records whose difficulty field contains
  the token as a substring, in the order of \<open>Object.values\<close>; filtering by one star
  returns every record whose difficulty is one, two or three stars.
\<close>

theorem difficulty_filter_containment:
  "filteredGoals (Object_values goals) token
     = filter (\<lambda>g. sublist token (difficulty g)) (Object_values goals)
   \<and> (\<forall>g\<in>set (Object_values goals).
         difficulty g \<in> {[STAR], [STAR, STAR], [STAR, STAR, STAR]}
         \<longrightarrow> g \<in> set (filteredGoals (Object_values goals) [STAR]))"
proof -
  have "sublist [STAR] [STAR]" "sublist [STAR] [STAR, STAR]" "sublist [STAR] [STAR, STAR, STAR]"
    unfolding includes_str_sublist [symmetric] by simp_all
  then show ?thesis by (auto simp: filteredGoals_filter)
qed

text \<open>
  On the sample sheet, one star returns the three goals (of two, one and three stars) and
  three stars return the goal of three stars alone.
\<close>

theorem difficulty_filter_containment_witness:
  "\<lparr>name = of_ascii ''Jano Skip Glitch'', description = of_ascii ''Skip the Jano fight'',
     levels = [], difficulty = [STAR, STAR], videoLink = of_ascii ''video''\<rparr>
     \<in> set (Object_values skip_goals)
   \<and> filteredGoals (Object_values skip_goals) [STAR] = Object_values skip_goals
   \<and> filteredGoals (Object_values skip_goals) [STAR, STAR, STAR]
       = [\<lparr>name = of_ascii ''Jano'', description = of_ascii ''Defeat Jano'',
           levels = [], difficulty = [STAR, STAR, STAR], videoLink = []\<rparr>]"
proof -
  let ?g = "\<lparr>name = of_ascii ''Jano Skip Glitch'', description = of_ascii ''Skip the Jano fight'',
     levels = [], difficulty = [STAR, STAR], videoLink = of_ascii ''video''\<rparr>"
  have m: "?g \<in> set (Object_values skip_goals)"
    by (simp add: skip_goals_values)
  have "filteredGoals (Object_values skip_goals) [STAR]
          = filter (\<lambda>g. sublist [STAR] (difficulty g)) (Object_values skip_goals)"
    and "filteredGoals (Object_values skip_goals) [STAR, STAR, STAR]
          = filter (\<lambda>g. sublist [STAR, STAR, STAR] (difficulty g)) (Object_values skip_goals)"
    and "?g \<in> set (filteredGoals (Object_values skip_goals) [STAR])"
    using difficulty_filter_containment [of skip_goals "[STAR]"]
      difficulty_filter_containment [of skip_goals "[STAR, STAR, STAR]"] m
    by simp_all
  then show ?thesis
    unfolding includes_str_sublist [symmetric] using m
    by (simp add: skip_goals_values)
qed

section \<open>The listing of all goals\<close>

text \<open>
  C6. For every parsed sheet, \<open>/goals\<close> answers 200 and its \<open>totalGoals\<close> is the number
  of records in the object the loader built. That number is the number of distinct keys
  of the admitted rows that the object stores (every key but \<open>__proto__\<close>), and the rows
  with an empty Name or Description do not count: the object is the one the loader builds
  from the admitted rows alone.
\<close>

theorem totalGoals_counts_loaded_records:
  "\<exists>goals goalList.
     loadGoals toLowerCase (Csv rows) = Inr goals
     \<and> goals_handler toLowerCase (Csv rows)
         = ([LoadGoals_called],
            Responded 200 (Json_goals (length (Object_values goals)) goalList))
     \<and> length (Object_values goals)
         = card {goalName toLowerCase r | r.
                   r \<in> set rows \<and> admitted r \<and> goalName toLowerCase r \<noteq> PROTO}
     \<and> loadGoals toLowerCase (Csv (filter admitted rows)) = Inr goals"
proof -
  define goals where "goals = on_rows toLowerCase empty_object rows"
  have "length (Object_values goals) = length (map fst (own goals))"
    by (simp add: length_Object_values)
  also have "\<dots> = card (set (map fst (own goals)))"
    using distinct_card [OF distinct_loaded_keys [of toLowerCase rows]]
    by (simp only: goals_def)
  also have "\<dots> = card {goalName toLowerCase r | r.
                   r \<in> set rows \<and> admitted r \<and> goalName toLowerCase r \<noteq> PROTO}"
    using own_loaded_keys [of toLowerCase rows] by (simp add: goals_def)
  finally have count: "length (Object_values goals)
         = card {goalName toLowerCase r | r.
                   r \<in> set rows \<and> admitted r \<and> goalName toLowerCase r \<noteq> PROTO}" .
  have "goals_handler toLowerCase (Csv rows)
         = ([LoadGoals_called],
            Responded 200 (Json_goals (length (Object_values goals))
              (map overview_of (Object_values goals))))"
    by (simp add: goals_handler_def loadGoals_Csv goals_def)
  moreover have "loadGoals toLowerCase (Csv (filter admitted rows)) = Inr goals"
    by (simp add: loadGoals_Csv goals_def on_rows_filter_admitted)
  ultimately show ?thesis using count by (auto simp: loadGoals_Csv goals_def)
qed

text \<open>
  The sheet of five rows, two of them with the same name, one without a description and
  one without a name, gives \<open>totalGoals = 2\<close>.
\<close>

theorem totalGoals_counts_loaded_records_witness:
  "\<exists>goalList. goals_handler ascii_toLowerCase (Csv duplicate_sheet)
      = ([LoadGoals_called], Responded 200 (Json_goals 2 goalList))"
proof -
  from totalGoals_counts_loaded_records [of ascii_toLowerCase duplicate_sheet]
  obtain goals goalList where
    "loadGoals ascii_toLowerCase (Csv duplicate_sheet) = Inr goals"
    and h: "goals_handler ascii_toLowerCase (Csv duplicate_sheet)
         = ([LoadGoals_called],
            Responded 200 (Json_goals (length (Object_values goals)) goalList))"
    by blast
  then have "length (Object_values goals) = 2"
    by (auto simp: loadGoals_Csv duplicate_goals_values)
  with h show ?thesis by auto
qed

text \<open>
  C7. For every loaded record, the entry at its position in the \<open>/goals\<close> response has as
  description the first 100 code units of the description of the record followed by
  three dots, and its \<open>hasVideo\<close> is true exactly when the \<open>videoLink\<close> of the record is
  not empty.
\<close>

theorem goals_overview_fields:
  assumes "loadGoals toLowerCase (Csv rows) = Inr goals"
    and "i < length (Object_values goals)"
  shows "\<exists>goalList.
     goals_handler toLowerCase (Csv rows)
       = ([LoadGoals_called], Responded 200 (Json_goals (length goalList) goalList))
     \<and> length goalList = length (Object_values goals)
     \<and> o_description (goalList ! i)
         = take 100 (description (Object_values goals ! i)) @ of_ascii ''...''
     \<and> (hasVideo (goalList ! i) \<longleftrightarrow> videoLink (Object_values goals ! i) \<noteq> [])"
  using assms
  by (simp add: goals_handler_def overview_of_def substring0_def)

text \<open>
  The first record of the numbered sheet has a description of 110 code units and a video
  link: its entry shows the first 100 and three dots, and \<open>hasVideo\<close>.
\<close>

theorem goals_overview_fields_witness:
  "loadGoals ascii_toLowerCase (Csv numbered_sheet)
     = Inr (on_rows ascii_toLowerCase empty_object numbered_sheet)
   \<and> (0::nat) < length (Object_values (on_rows ascii_toLowerCase empty_object numbered_sheet))
   \<and> (\<exists>goalList.
        goals_handler ascii_toLowerCase (Csv numbered_sheet)
          = ([LoadGoals_called], Responded 200 (Json_goals 4 goalList))
        \<and> o_description (goalList ! 0)
            = of_ascii
                (''0123456789012345678901234567890123456789012345678901234567890123456789''
                 @ ''012345678901234567890123456789...'')
        \<and> hasVideo (goalList ! 0))"
proof -
  have h1: "loadGoals ascii_toLowerCase (Csv numbered_sheet)
     = Inr (on_rows ascii_toLowerCase empty_object numbered_sheet)"
    by (rule loadGoals_Csv)
  have h2: "(0::nat) < length (Object_values (on_rows ascii_toLowerCase empty_object numbered_sheet))"
    by (simp add: numbered_goals_values)
  from goals_overview_fields [OF h1 h2] h1 h2 show ?thesis
    by (auto simp: numbered_goals_values of_ascii_def)
qed

section \<open>Blank names and empty sheets\<close>

text \<open>
  C8. For every request to \<open>/goal\<close> whose \<open>name\<close> is missing or trims to the empty
  string, whatever the remote sheet would give, the handler answers 400 and has called
  neither the loader nor \<open>searchGoals\<close>.
\<close>

theorem goal_handler_blank_name:
  assumes "param = Absent \<or> (\<exists>s. param = Text s \<and> trim s = [])"
  shows "goal_handler toLowerCase up param
           = ([], Responded 400 (Send (of_ascii ''Please provide a goal name (?name=...)'')))"
  using assms trim_empty by (auto simp: goal_handler_def)

text \<open>A name of two spaces and a TAB, and a request without a name while the sheet is unreachable.\<close>

theorem goal_handler_blank_name_witness:
  "trim (of_ascii ''  '' @ [TAB]) = []
   \<and> goal_handler ascii_toLowerCase (Csv skip_sheet) (Text (of_ascii ''  '' @ [TAB]))
       = ([], Responded 400 (Send (of_ascii ''Please provide a goal name (?name=...)'')))
   \<and> goal_handler ascii_toLowerCase Unreachable Absent
       = ([], Responded 400 (Send (of_ascii ''Please provide a goal name (?name=...)'')))"
proof -
  have t: "trim (of_ascii ''  '' @ [TAB]) = []"
    by (simp add: eval_defs)
  then have "Text (of_ascii ''  '' @ [TAB]) = Absent
      \<or> (\<exists>s. Text (of_ascii ''  '' @ [TAB]) = Text s \<and> trim s = [])"
    by simp
  from goal_handler_blank_name [OF this, of ascii_toLowerCase "Csv skip_sheet"]
    goal_handler_blank_name [of Absent ascii_toLowerCase Unreachable] t
  show ?thesis by simp
qed

text \<open>
  C9. When the loader returns an object without records, \<open>/goal/random\<close> reads
  \<open>undefined\<close> from the empty array, \<open>formatGoal\<close> throws a TypeError inside the \<open>try\<close>
  block, and the handler logs it and answers 500 with its fixed message: the request gets
  a response, whatever the random number.
\<close>

theorem random_handler_no_records:
  assumes "loadGoals toLowerCase up = Inr goals" and "Object_values goals = []"
  shows "random_handler toLowerCase floor_random up
           = ([LoadGoals_called, Console_error TypeError],
              Responded 500 (Send (of_ascii ''Error fetching goals.'')))"
  using assms by (simp add: random_handler_def array_get_def formatGoal_def)

text \<open>A sheet whose only row has no name loads no record.\<close>

theorem random_handler_no_records_witness:
  "loadGoals ascii_toLowerCase (Csv [sheet_row [] ''nameless'' [] []]) = Inr empty_object
   \<and> Object_values (empty_object :: goal js_object) = []
   \<and> random_handler ascii_toLowerCase (\<lambda>n. 0) (Csv [sheet_row [] ''nameless'' [] []])
       = ([LoadGoals_called, Console_error TypeError],
          Responded 500 (Send (of_ascii ''Error fetching goals.'')))"
proof -
  have h1: "loadGoals ascii_toLowerCase (Csv [sheet_row [] ''nameless'' [] []]) = Inr empty_object"
    by (simp add: eval_defs)
  have h2: "Object_values (empty_object :: goal js_object) = []"
    by (simp add: Object_values_def Object_entries_def empty_object_def)
  from random_handler_no_records [OF h1 h2, of "\<lambda>n. 0"] h1 h2 show ?thesis by simp
qed

section \<open>The two loaders\<close>

text \<open>
  C10. For the same parsed sheet, the loader of \<open>src/index.js\<close> and the loader of
  \<open>src/unnamed/part_000\<close> return objects with the same keys, in the same order: the keys
  of the admitted rows, each the trimmed and lowercased Name, except \<open>__proto__\<close>, which
  neither loader stores.
\<close>

theorem loaders_agree_on_keys:
  "\<exists>a b. loadGoals_index toLowerCase (Csv rows) = Inr a
       \<and> loadGoals toLowerCase (Csv rows) = Inr b
       \<and> Object_keys a = Object_keys b
       \<and> set (Object_keys b)
           = {goalName toLowerCase r | r.
                r \<in> set rows \<and> admitted r \<and> goalName toLowerCase r \<noteq> PROTO}"
proof -
  have "map fst (own (on_rows_index toLowerCase empty_object rows))
          = map fst (own (on_rows toLowerCase empty_object rows))"
    by (rule index_keys_on_rows) (simp add: empty_object_def)
  then have "Object_keys (on_rows_index toLowerCase empty_object rows)
          = Object_keys (on_rows toLowerCase empty_object rows)"
    by (simp add: Object_keys_def)
  moreover have "set (Object_keys (on_rows toLowerCase empty_object rows))
           = {goalName toLowerCase r | r.
                r \<in> set rows \<and> admitted r \<and> goalName toLowerCase r \<noteq> PROTO}"
    using own_loaded_keys [of toLowerCase rows]
    by (simp add: Object_keys_def set_own_property_keys)
  ultimately show ?thesis by (simp add: loadGoals_def loadGoals_index_def)
qed

text \<open>The \<open>__proto__\<close> row followed by the sheet with a repeated name: both loaders keep two keys.\<close>

theorem loaders_agree_on_keys_witness:
  "\<exists>a b. loadGoals_index ascii_toLowerCase (Csv (proto_sheet @ duplicate_sheet)) = Inr a
       \<and> loadGoals ascii_toLowerCase (Csv (proto_sheet @ duplicate_sheet)) = Inr b
       \<and> Object_keys a = [of_ascii ''flame skip'', of_ascii ''walk'']
       \<and> Object_keys b = [of_ascii ''flame skip'', of_ascii ''walk'']"
proof -
  have "Object_keys (on_rows ascii_toLowerCase empty_object (proto_sheet @ duplicate_sheet))
          = [of_ascii ''flame skip'', of_ascii ''walk'']"
    by (simp add: proto_sheet_def duplicate_sheet_def eval_defs index_defs)
  with loaders_agree_on_keys [of ascii_toLowerCase "proto_sheet @ duplicate_sheet"]
  show ?thesis by (auto simp: loadGoals_Csv)
qed

end
